theory Spec2Isabelle
  imports Main "HOL-Library.Sublist"
begin

section \<open>Data model (transform.go, transformEntity.go, request message)\<close>

text \<open>
  Go strings are byte sequences, modelled as \<open>string\<close> (a list of 8-bit characters).
  A pointer field that may be nil is an \<open>option\<close>; a slice is a list (a nil slice and
  an empty slice marshal alike and \<open>append\<close> treats them alike). The slices of the
  source hold pointers to structs; every pointer the package stores in them comes from a
  fresh allocation (\<open>&Field{...}\<close>, \<open>NewEntity\<close>) or from the decoder, so the
  elements are modelled by value. The \<open>XMLName\<close> fields carry a fixed tag name in
  every struct that has one; the encoder takes the element name from that tag, so the field
  is left out of the records.
\<close>

record Field =
  Text :: string
  MatchingRule :: string
  Name :: string
  DisplayName :: string

record AdditionalFields =
  Items :: "Field list"

record GenealogyType =
  Name :: string
  OldName :: string

record Genealogy =
  Type :: GenealogyType

record DisplayLabel =
  Text :: string
  Name :: string
  Type :: string

record DisplayInformation =
  Labels :: "DisplayLabel list"

record Entity =
  Type :: string
  Genealogy :: "Genealogy option"
  Value :: string
  Weight :: string
  Info :: "DisplayInformation option"
  IconURL :: string
  Fields :: "AdditionalFields option"

record Entities =
  Items :: "Entity list"

record UIMessage =
  Text :: string
  MessageType :: string

record UIMessages =
  Items :: "UIMessage list"

record ResponseMessage =
  Entities :: Entities
  UIMessages :: UIMessages

record Exception =
  Text :: string
  Code :: string

record Exceptions =
  Items :: "Exception list"

record ExceptionMessage =
  Exceptions :: Exceptions

record Limits =
  HardLimit :: string
  SoftLimit :: string

record TransformField =
  Text :: string
  Name :: string

record TransformFields =
  Fields :: "TransformField list"

record RequestMessage =
  Entities :: Entities
  Limits :: Limits
  TransformFields :: TransformFields

record Transform =
  ResponseMessage :: "ResponseMessage option"
  ExceptionMessage :: "ExceptionMessage option"
  RequestMessage :: "RequestMessage option"

text \<open>The zero values \<open>Transform{}\<close>, \<open>&ResponseMessage{}\<close> and \<open>&ExceptionMessage{}\<close>.\<close>

definition zeroTransform :: Transform where
  "zeroTransform = \<lparr>ResponseMessage = None, ExceptionMessage = None, RequestMessage = None\<rparr>"

definition zeroResponseMessage :: ResponseMessage where
  "zeroResponseMessage =
     \<lparr>ResponseMessage.Entities = \<lparr>Entities.Items = []\<rparr>, UIMessages = \<lparr>UIMessages.Items = []\<rparr>\<rparr>"

definition zeroExceptionMessage :: ExceptionMessage where
  "zeroExceptionMessage = \<lparr>Exceptions = \<lparr>Exceptions.Items = []\<rparr>\<rparr>"


section \<open>Escaping (util.go: EscapeText, newlineReplacer)\<close>

subsection \<open>The standard library's \<open>utf8.DecodeRune\<close> and \<open>xml.EscapeText\<close>\<close>

definition RuneError :: nat where
  "RuneError = 0xFFFD"

text \<open>
  \<open>utf8.DecodeRune\<close>: the first rune of a byte string and its width in bytes; an
  invalid or truncated encoding yields \<open>(RuneError, 1)\<close>, the empty string
  \<open>(RuneError, 0)\<close>. The first byte selects the size and the range accepted for
  the second byte (the library's \<open>first\<close> and \<open>acceptRanges\<close> tables).
\<close>

fun DecodeRune :: "string \<Rightarrow> nat \<times> nat" where
  "DecodeRune [] = (RuneError, 0)"
| "DecodeRune (c0 # p) =
     (let p0 = (of_char c0 :: nat) in
      if p0 < 0x80 then (p0, 1)
      else if p0 < 0xC2 \<or> 0xF5 \<le> p0 then (RuneError, 1)
      else
        let sz = (if p0 < 0xE0 then 2 else if p0 < 0xF0 then 3 else 4 :: nat);
            lo = (if p0 = 0xE0 then 0xA0 else if p0 = 0xF0 then 0x90 else 0x80 :: nat);
            hi = (if p0 = 0xED then 0x9F else if p0 = 0xF4 then 0x8F else 0xBF :: nat)
        in
        if Suc (length p) < sz then (RuneError, 1)
        else
          let b1 = (of_char (p ! 0) :: nat) in
          if b1 < lo \<or> hi < b1 then (RuneError, 1)
          else if sz \<le> 2 then ((p0 mod 0x20) * 0x40 + b1 mod 0x40, 2)
          else
            let b2 = (of_char (p ! 1) :: nat) in
            if b2 < 0x80 \<or> 0xBF < b2 then (RuneError, 1)
            else if sz \<le> 3 then
              ((p0 mod 0x10) * 0x1000 + (b1 mod 0x40) * 0x40 + b2 mod 0x40, 3)
            else
              let b3 = (of_char (p ! 2) :: nat) in
              if b3 < 0x80 \<or> 0xBF < b3 then (RuneError, 1)
              else ((p0 mod 8) * 0x40000 + (b1 mod 0x40) * 0x1000
                      + (b2 mod 0x40) * 0x40 + b3 mod 0x40, 4))"

definition isInCharacterRange :: "nat \<Rightarrow> bool" where
  "isInCharacterRange r \<longleftrightarrow>
     r = 0x09 \<or> r = 0x0A \<or> r = 0x0D \<or>
     (0x20 \<le> r \<and> r \<le> 0xD7FF) \<or>
     (0xE000 \<le> r \<and> r \<le> 0xFFFD) \<or>
     (0x10000 \<le> r \<and> r \<le> 0x10FFFF)"

text \<open>The replacement character U+FFFD in UTF-8 (\<open>escFFFD\<close>).\<close>

definition escFFFD :: string where
  "escFFFD = [char_of (0xEF :: nat), char_of (0xBF :: nat), char_of (0xBD :: nat)]"

text \<open>
  What one rune contributes to the escaped text: its escape sequence, the replacement
  character for a rune outside the XML character range or an invalid byte, and otherwise
  its own bytes \<open>raw\<close>.
\<close>

definition escapeRune :: "nat \<Rightarrow> nat \<Rightarrow> string \<Rightarrow> string" where
  \<open>escapeRune r width raw =
     (if r = 0x22 then ''&#34;''
      else if r = 0x27 then ''&#39;''
      else if r = 0x26 then ''&amp;''
      else if r = 0x3C then ''&lt;''
      else if r = 0x3E then ''&gt;''
      else if r = 0x09 then ''&#x9;''
      else if r = 0x0A then ''&#xA;''
      else if r = 0x0D then ''&#xD;''
      else if \<not> isInCharacterRange r \<or> (r = 0xFFFD \<and> width = 1) then escFFFD
      else raw)\<close>

lemma DecodeRune_width: "DecodeRune (c # cs) = (r, w) \<Longrightarrow> 0 < w"
  by (auto simp: Let_def split: if_splits)

text \<open>
  \<open>xml.EscapeText\<close> (newlines escaped): the loop decodes one rune at a time and
  writes either the pending unescaped bytes or an escape sequence.
\<close>

function xml_EscapeText :: "string \<Rightarrow> string" where
  "xml_EscapeText [] = []"
| "xml_EscapeText (c # cs) =
     (case DecodeRune (c # cs) of
        (r, width) \<Rightarrow>
          escapeRune r width (take width (c # cs)) @ xml_EscapeText (drop width (c # cs)))"
  by pat_completeness auto
termination
  apply (relation "measure length")
   apply simp
  subgoal for c cs r width
    using DecodeRune_width [of c cs r width] by simp
  done

subsection \<open>\<open>strings.Replacer\<close>\<close>

text \<open>
  \<open>strings.NewReplacer(old1, new1, ...).Replace\<close>: matches are replaced left to
  right without overlap, the old strings compared in argument order. None of the package's
  replacers has an empty old string; such a pair never matches here.
\<close>

fun lookupOld :: "(string \<times> string) list \<Rightarrow> string \<Rightarrow> (string \<times> string) option" where
  "lookupOld [] s = None"
| "lookupOld ((old, new) # oldnew) s =
     (if old \<noteq> [] \<and> prefix old s then Some (old, new) else lookupOld oldnew s)"

lemma lookupOld_nonempty: "lookupOld oldnew s = Some (old, new) \<Longrightarrow> old \<noteq> []"
  by (induction oldnew) (auto split: if_splits)

function Replace :: "(string \<times> string) list \<Rightarrow> string \<Rightarrow> string" where
  "Replace oldnew [] = []"
| "Replace oldnew (c # cs) =
     (case lookupOld oldnew (c # cs) of
        Some (old, new) \<Rightarrow> new @ Replace oldnew (drop (length old) (c # cs))
      | None \<Rightarrow> c # Replace oldnew cs)"
  by pat_completeness auto
termination
  by (relation "measure (\<lambda>(oldnew, s). length s)")
     (auto dest: lookupOld_nonempty)

definition newlineReplacer :: "(string \<times> string) list" where
  "newlineReplacer = [(''&#xA;'', [CHR 0x0A])]"

text \<open>
  \<open>EscapeText\<close>: \<open>xml.EscapeText\<close> into a buffer (it cannot fail on a
  \<open>bytes.Buffer\<close>), then the newline replacer over the buffer's text.
\<close>

definition EscapeText :: "string \<Rightarrow> string" where
  "EscapeText text = Replace newlineReplacer (xml_EscapeText text)"


section \<open>Entity operations (transformEntity.go)\<close>

definition NewEntity :: "string \<Rightarrow> string \<Rightarrow> string \<Rightarrow> Entity" where
  "NewEntity typ val weight =
     \<lparr>Entity.Type = typ, Genealogy = None, Value = val, Weight = weight,
      Info = None, IconURL = [], Entity.Fields = None\<rparr>"

text \<open>
  A run-time panic of the Go program is a value of its own: a method that can panic returns
  \<open>panic + 'a\<close>.
\<close>

datatype panic = NilPointerDereference | IndexOutOfRange

text \<open>The \<open>for ... range\<close> loop of \<open>GetFieldByName\<close> over the items.\<close>

fun scanFields :: "Field list \<Rightarrow> string \<Rightarrow> string" where
  "scanFields [] name = []"
| "scanFields (f # fs) name =
     (if Field.Name f = name then Field.Text f else scanFields fs name)"

text \<open>
  \<open>GetFieldByName\<close> evaluates \<open>tre.Fields.Items\<close> without a nil check:
  with \<open>tre.Fields == nil\<close> the selector dereferences a nil pointer and the
  program panics.
\<close>

definition GetFieldByName :: "Entity \<Rightarrow> string \<Rightarrow> panic + string" where
  "GetFieldByName tre name =
     (case Entity.Fields tre of
        None \<Rightarrow> Inl NilPointerDereference
      | Some fs \<Rightarrow> Inr (scanFields (AdditionalFields.Items fs) name))"

definition AddProperty :: "Entity \<Rightarrow> string \<Rightarrow> string \<Rightarrow> string \<Rightarrow> string \<Rightarrow> Entity" where
  "AddProperty tre fieldName displayName matchingRule val =
     (let fs = (case Entity.Fields tre of
                  None \<Rightarrow> \<lparr>AdditionalFields.Items = []\<rparr>
                | Some fs \<Rightarrow> fs)
      in tre\<lparr>Entity.Fields :=
               Some \<lparr>AdditionalFields.Items =
                       AdditionalFields.Items fs
                         @ [\<lparr>Field.Text = EscapeText val, MatchingRule = matchingRule,
                              Field.Name = fieldName, DisplayName = displayName\<rparr>]\<rparr>\<rparr>)"

definition NewDisplayLabel :: "string \<Rightarrow> string \<Rightarrow> DisplayLabel" where
  "NewDisplayLabel text name =
     \<lparr>DisplayLabel.Text = text, DisplayLabel.Name = name, DisplayLabel.Type = ''text/html''\<rparr>"


section \<open>Envelope helpers (transform.go)\<close>

text \<open>
  The methods mutate the receiver; the model returns the envelope after the call.
  \<open>AddEntity\<close> also returns the entity it appended.
\<close>

definition AddEntity :: "Transform \<Rightarrow> string \<Rightarrow> string \<Rightarrow> Entity \<times> Transform" where
  "AddEntity tr typ val =
     (let rm = (case ResponseMessage tr of None \<Rightarrow> zeroResponseMessage | Some rm \<Rightarrow> rm);
          ent = NewEntity typ (EscapeText val) ''100''
      in (ent,
          tr\<lparr>ResponseMessage :=
               Some (rm\<lparr>ResponseMessage.Entities :=
                          \<lparr>Entities.Items =
                             Entities.Items (ResponseMessage.Entities rm) @ [ent]\<rparr>\<rparr>)\<rparr>))"

definition AddUIMessage :: "Transform \<Rightarrow> string \<Rightarrow> string \<Rightarrow> Transform" where
  "AddUIMessage tr message messageType =
     (let rm = (case ResponseMessage tr of None \<Rightarrow> zeroResponseMessage | Some rm \<Rightarrow> rm)
      in tr\<lparr>ResponseMessage :=
              Some (rm\<lparr>UIMessages :=
                         \<lparr>UIMessages.Items =
                            UIMessages.Items (UIMessages rm)
                              @ [\<lparr>UIMessage.Text = message, MessageType = messageType\<rparr>]\<rparr>\<rparr>)\<rparr>)"

definition AddException :: "Transform \<Rightarrow> string \<Rightarrow> string \<Rightarrow> Transform" where
  "AddException tr exceptionString code =
     (let em = (case ExceptionMessage tr of None \<Rightarrow> zeroExceptionMessage | Some em \<Rightarrow> em)
      in tr\<lparr>ExceptionMessage :=
              Some (em\<lparr>Exceptions :=
                         \<lparr>Exceptions.Items =
                            Exceptions.Items (Exceptions em)
                              @ [\<lparr>Exception.Text = exceptionString, Code = code\<rparr>]\<rparr>\<rparr>)\<rparr>)"


section \<open>Marshalling (\<open>xml.Marshal\<close> over the struct tags)\<close>

text \<open>
  \<open>xml.Marshal\<close> walks a value along its struct tags and emits start elements with
  attributes, character data and end elements. The walk is modelled in two steps: the
  element tree a value yields, and the text the encoder's printer writes for a tree.
\<close>

datatype xml =
    Element string "(string \<times> string) list" "xml list"
  | CharData string
  | CDATA string

fun elementName :: "xml \<Rightarrow> string option" where
  "elementName (Element n attrs cs) = Some n"
| "elementName (CharData s) = None"
| "elementName (CDATA s) = None"

fun children :: "xml \<Rightarrow> xml list" where
  "children (Element n attrs cs) = cs"
| "children (CharData s) = []"
| "children (CDATA s) = []"

definition childNames :: "xml \<Rightarrow> string list" where
  "childNames x = List.map_filter elementName (children x)"

text \<open>
  \<open>emitCDATA\<close>: nothing for empty text; otherwise one CDATA section, a nested
  section end \<open>]]>\<close> being split over two sections.
\<close>

definition emitCDATA :: "string \<Rightarrow> string" where
  "emitCDATA s =
     (if s = [] then []
      else ''<![CDATA['' @ Replace [('']]>'', '']]]]><![CDATA[>'')] s @ '']]>'')"

text \<open>
  The printer: \<open>writeStart\<close> with the attributes in order, their values escaped,
  the content, and \<open>writeEnd\<close>. An element with no content is written as a start
  and an end tag, never self-closed. Character data and attribute values go through the
  same escaping as \<open>xml.EscapeText\<close>.
\<close>

definition renderAttr :: "string \<times> string \<Rightarrow> string" where
  \<open>renderAttr a = '' '' @ fst a @ ''="'' @ xml_EscapeText (snd a) @ ''"''\<close>

fun render :: "xml \<Rightarrow> string" where
  "render (Element n attrs cs) =
     ''<'' @ n @ concat (map renderAttr attrs) @ ''>''
       @ concat (map render cs) @ ''</'' @ n @ ''>''"
| "render (CharData s) = xml_EscapeText s"
| "render (CDATA s) = emitCDATA s"

text \<open>A string field with an element tag: \<open><name>text</name>\<close>.\<close>

definition stringElement :: "string \<Rightarrow> string \<Rightarrow> xml" where
  "stringElement n s = Element n [] [CharData s]"

text \<open>
  One function per struct, following its tags: attributes first (in field order), then
  the other fields in order. A nil pointer yields nothing; \<open>omitempty\<close> drops an
  empty string (\<open>IconURL\<close>); a struct field without \<open>omitempty\<close> and a string
  field without it always yield their element.
\<close>

definition marshalField :: "Field \<Rightarrow> xml" where
  "marshalField f =
     Element ''Field''
       [(''MatchingRule'', MatchingRule f), (''Name'', Field.Name f),
        (''DisplayName'', DisplayName f)]
       [CharData (Field.Text f)]"

definition marshalAdditionalFields :: "AdditionalFields \<Rightarrow> xml" where
  "marshalAdditionalFields fs =
     Element ''AdditionalFields'' [] (map marshalField (AdditionalFields.Items fs))"

definition marshalGenealogy :: "Genealogy \<Rightarrow> xml" where
  "marshalGenealogy g =
     Element ''Genealogy'' []
       [Element ''Type''
          [(''Name'', GenealogyType.Name (Genealogy.Type g)),
           (''OldName'', OldName (Genealogy.Type g))] []]"

definition marshalDisplayLabel :: "DisplayLabel \<Rightarrow> xml" where
  "marshalDisplayLabel l =
     Element ''Label'' [(''Name'', DisplayLabel.Name l), (''Type'', DisplayLabel.Type l)]
       [CDATA (DisplayLabel.Text l)]"

definition marshalDisplayInformation :: "DisplayInformation \<Rightarrow> xml" where
  "marshalDisplayInformation i =
     Element ''DisplayInformation'' [] (map marshalDisplayLabel (Labels i))"

definition marshalEntity :: "Entity \<Rightarrow> xml" where
  "marshalEntity e =
     Element ''Entity'' [(''Type'', Entity.Type e)]
       ((case Genealogy e of None \<Rightarrow> [] | Some g \<Rightarrow> [marshalGenealogy g])
        @ [stringElement ''Value'' (Value e), stringElement ''Weight'' (Weight e)]
        @ (case Info e of None \<Rightarrow> [] | Some i \<Rightarrow> [marshalDisplayInformation i])
        @ (if IconURL e = [] then [] else [stringElement ''IconURL'' (IconURL e)])
        @ (case Entity.Fields e of None \<Rightarrow> [] | Some fs \<Rightarrow> [marshalAdditionalFields fs]))"

definition marshalEntities :: "Entities \<Rightarrow> xml" where
  "marshalEntities es = Element ''Entities'' [] (map marshalEntity (Entities.Items es))"

definition marshalUIMessage :: "UIMessage \<Rightarrow> xml" where
  "marshalUIMessage m =
     Element ''UIMessage'' [(''MessageType'', MessageType m)] [CharData (UIMessage.Text m)]"

definition marshalResponseMessage :: "ResponseMessage \<Rightarrow> xml" where
  "marshalResponseMessage rm =
     Element ''MaltegoTransformResponseMessage'' []
       [marshalEntities (ResponseMessage.Entities rm),
        Element ''UIMessages'' [] (map marshalUIMessage (UIMessages.Items (UIMessages rm)))]"

definition marshalException :: "Exception \<Rightarrow> xml" where
  "marshalException x =
     Element ''Exception'' [(''code'', Code x)] [CharData (Exception.Text x)]"

definition marshalExceptionMessage :: "ExceptionMessage \<Rightarrow> xml" where
  "marshalExceptionMessage em =
     Element ''MaltegoTransformExceptionMessage'' []
       [Element ''Exceptions'' [] (map marshalException (Exceptions.Items (Exceptions em)))]"

definition marshalLimits :: "Limits \<Rightarrow> xml" where
  "marshalLimits l =
     Element ''Limits'' [(''HardLimit'', HardLimit l), (''SoftLimit'', SoftLimit l)] []"

definition marshalTransformField :: "TransformField \<Rightarrow> xml" where
  "marshalTransformField f =
     Element ''Field'' [(''Name'', TransformField.Name f)] [CharData (TransformField.Text f)]"

definition marshalRequestMessage :: "RequestMessage \<Rightarrow> xml" where
  "marshalRequestMessage rq =
     Element ''MaltegoTransformRequestMessage'' []
       [marshalEntities (RequestMessage.Entities rq),
        marshalLimits (Limits rq),
        Element ''TransformFields'' []
          (map marshalTransformField (TransformFields.Fields (TransformFields rq)))]"

text \<open>
  The children of the root element: one element per payload pointer that is not nil, in
  the order of the fields of \<open>Transform\<close>.
\<close>

definition payloadElements :: "Transform \<Rightarrow> xml list" where
  "payloadElements tr =
     (case ResponseMessage tr of None \<Rightarrow> [] | Some rm \<Rightarrow> [marshalResponseMessage rm])
     @ (case ExceptionMessage tr of None \<Rightarrow> [] | Some em \<Rightarrow> [marshalExceptionMessage em])
     @ (case RequestMessage tr of None \<Rightarrow> [] | Some rq \<Rightarrow> [marshalRequestMessage rq])"

definition marshalTransform :: "Transform \<Rightarrow> xml" where
  "marshalTransform tr = Element ''MaltegoMessage'' [] (payloadElements tr)"

text \<open>
  \<open>xml.Marshal(tr)\<close>. It returns no error for these types (no field kind the encoder
  rejects), so the logging branches of \<open>ReturnOutput\<close> and \<open>ThrowExceptions\<close>
  are never taken.
\<close>

definition xml_Marshal :: "Transform \<Rightarrow> string" where
  "xml_Marshal tr = render (marshalTransform tr)"

definition ReturnOutput :: "Transform \<Rightarrow> string" where
  "ReturnOutput tr = xml_Marshal tr"

text \<open>\<open>ThrowExceptions\<close> returns the text; the model also returns the envelope after it.\<close>

definition ThrowExceptions :: "Transform \<Rightarrow> string \<times> Transform" where
  "ThrowExceptions tr =
     (let tr' = tr\<lparr>ResponseMessage := None\<rparr> in (xml_Marshal tr', tr'))"


section \<open>Local argument parser (ParseLocalArguments)\<close>

text \<open>
  \<open>strings.Split(s, sep)\<close> for a non-empty separator: the substrings between the
  occurrences of \<open>sep\<close>, found left to right without overlap; always at least one.
\<close>

function Split :: "string \<Rightarrow> string \<Rightarrow> string list" where
  "Split [] sep = [[]]"
| "Split (c # cs) sep =
     (if sep \<noteq> [] \<and> prefix sep (c # cs) then [] # Split (drop (length sep) (c # cs)) sep
      else (case Split cs sep of
              [] \<Rightarrow> [[c]]
            | x # xs \<Rightarrow> (c # x) # xs))"
  by pat_completeness auto
termination
  by (relation "measure (\<lambda>(s, sep). length s)") auto

fun Join :: "string list \<Rightarrow> string \<Rightarrow> string" where
  "Join [] sep = []"
| "Join [x] sep = x"
| "Join (x # y # ys) sep = x @ sep @ Join (y # ys) sep"

definition replacer :: "(string \<times> string) list" where
  "replacer = [(''&amp;'', ''&''), ([CHR 0x5C, CHR ''=''], ''='')]"

datatype failure = Fatal | Panic panic

record LocalTransform =
  Value :: string
  Values :: "string \<rightharpoonup> string"

text \<open>The body of the inner loop: one chunk \<open>x\<close> of an argument.\<close>

definition parseVar :: "(string \<rightharpoonup> string) \<Rightarrow> string \<Rightarrow> failure + (string \<rightharpoonup> string)" where
  "parseVar vals x =
     (let kv = Split x ''='' in
      case kv of
        [] \<Rightarrow> Inl (Panic IndexOutOfRange)
      | k # rest \<Rightarrow>
          if length kv = 2 then Inr (vals(k \<mapsto> Replace replacer (kv ! 1)))
          else Inr (vals(k \<mapsto> Replace replacer (Join rest ''=''))))"

fun parseVars :: "(string \<rightharpoonup> string) \<Rightarrow> string list \<Rightarrow> failure + (string \<rightharpoonup> string)" where
  "parseVars vals [] = Inr vals"
| "parseVars vals (x # vars) =
     (case parseVar vals x of
        Inl e \<Rightarrow> Inl e
      | Inr vals' \<Rightarrow> parseVars vals' vars)"

text \<open>The outer loop over \<open>args[1:]\<close>.\<close>

fun parseArgs :: "(string \<rightharpoonup> string) \<Rightarrow> string list \<Rightarrow> failure + (string \<rightharpoonup> string)" where
  "parseArgs vals [] = Inr vals"
| "parseArgs vals (arg # args) =
     (let arg' = Replace [([CHR 0x0A], '' '')] arg in
      if length arg' > 0 then
        (case parseVars vals (Split arg' ''#'') of
           Inl e \<Rightarrow> Inl e
         | Inr vals' \<Rightarrow> parseArgs vals' args)
      else parseArgs vals args)"

definition ParseLocalArguments :: "string list \<Rightarrow> failure + LocalTransform" where
  "ParseLocalArguments args =
     (if length args < 2 then Inl Fatal
      else
        (case (if length args > 1 then parseArgs Map.empty (drop 1 args) else Inr Map.empty) of
           Inl e \<Rightarrow> Inl e
         | Inr vals \<Rightarrow> Inr \<lparr>LocalTransform.Value = args ! 0, Values = vals\<rparr>))"


section \<open>Decoding (\<open>xml.Unmarshal\<close> over the struct tags)\<close>

subsection \<open>Reading the document\<close>

text \<open>
  \<open>xml.Unmarshal\<close> reads the input byte by byte, skips what comes before the first
  start element, decodes that element up to its end tag and never looks at what follows it.
  The reader is modelled as a machine that consumes one byte at a time and builds the
  element tree; the struct-directed part then walks the tree. The reader covers ASCII
  documents made of elements, attributes, character data and the five named entities.
  Comments, processing instructions, directives, CDATA sections, numeric character
  references, namespace prefixes, carriage returns and bytes above 0x7F are answered with
  \<open>Unsupported\<close>, so nothing is claimed about them. The Go decoder fills the struct
  while it reads and the model only after the element is complete, so for a document that is
  rejected the error reported may be another one than the Go decoder's.
\<close>

datatype xmlError = SyntaxError | UnexpectedEOF | Unsupported | UnmarshalError

text \<open>An open element: its name, its attributes and the children read so far.\<close>

type_synonym frame = "string \<times> (string \<times> string) list \<times> xml list"

datatype mode =
    InText string
  | InTagOpen
  | InEndName string
  | InEndSpace string
  | InStartName string
  | InAttrs string "(string \<times> string) list"
  | InAttrName string "(string \<times> string) list" string
  | InAttrEq string "(string \<times> string) list" string
  | InAttrQuote string "(string \<times> string) list" string
  | InAttrValue string "(string \<times> string) list" string char string
  | InSlash string "(string \<times> string) list"

datatype decoder = Reading mode "frame list" | Finished xml | Failed xmlError

definition isNameByte :: "char \<Rightarrow> bool" where
  "isNameByte c \<longleftrightarrow>
     (let b = (of_char c :: nat) in
      (0x41 \<le> b \<and> b \<le> 0x5A) \<or> (0x61 \<le> b \<and> b \<le> 0x7A) \<or> (0x30 \<le> b \<and> b \<le> 0x39)
      \<or> c = CHR ''_'' \<or> c = CHR '':'' \<or> c = CHR ''.'' \<or> c = CHR ''-'')"

definition isSpace :: "char \<Rightarrow> bool" where
  "isSpace c \<longleftrightarrow> c = CHR '' '' \<or> c = CHR 0x0A \<or> c = CHR 0x09"

text \<open>A name must start with a letter or an underscore; a colon would be a namespace prefix.\<close>

definition checkName :: "string \<Rightarrow> xmlError option" where
  "checkName n =
     (case n of
        [] \<Rightarrow> Some SyntaxError
      | c # cs \<Rightarrow>
          if CHR '':'' \<in> set n then Some Unsupported
          else
            let b = (of_char c :: nat) in
            if (0x41 \<le> b \<and> b \<le> 0x5A) \<or> (0x61 \<le> b \<and> b \<le> 0x7A) \<or> c = CHR ''_''
            then None else Some SyntaxError)"

definition lookupEntity :: "string \<Rightarrow> (char \<times> nat) option" where
  "lookupEntity s =
     (if prefix ''lt;'' s then Some (CHR ''<'', 3)
      else if prefix ''gt;'' s then Some (CHR ''>'', 3)
      else if prefix ''amp;'' s then Some (CHR ''&'', 4)
      else if prefix ''apos;'' s then Some (CHR 0x27, 5)
      else if prefix ''quot;'' s then Some (CHR 0x22, 5)
      else None)"

text \<open>Entity references in character data and attribute values.\<close>

function unescape :: "string \<Rightarrow> xmlError + string" where
  "unescape [] = Inr []"
| "unescape (c # cs) =
     (if c = CHR ''&'' then
        (case lookupEntity cs of
           Some (ch, n) \<Rightarrow>
             (case unescape (drop n cs) of Inl e \<Rightarrow> Inl e | Inr r \<Rightarrow> Inr (ch # r))
         | None \<Rightarrow> if prefix ''#'' cs then Inl Unsupported else Inl SyntaxError)
      else (case unescape cs of Inl e \<Rightarrow> Inl e | Inr r \<Rightarrow> Inr (c # r)))"
  by pat_completeness auto
termination
  by (relation "measure length") auto

text \<open>
  The end of a CDATA section \<open>]]>\<close> is not allowed in character data or in an
  attribute value.
\<close>

fun hasCDataEnd :: "string \<Rightarrow> bool" where
  "hasCDataEnd (a # b # c # cs) =
     ((a = CHR '']'' \<and> b = CHR '']'' \<and> c = CHR ''>'') \<or> hasCDataEnd (b # c # cs))"
| "hasCDataEnd cs = False"

text \<open>
  Character data ends: it becomes a child of the innermost open element (before the root
  element it is dropped).
\<close>

definition flushText :: "string \<Rightarrow> frame list \<Rightarrow> xmlError + frame list" where
  "flushText acc stack =
     (if acc = [] then Inr stack
      else if hasCDataEnd acc then Inl SyntaxError
      else
        (case unescape acc of
           Inl e \<Rightarrow> Inl e
         | Inr s \<Rightarrow>
             (case stack of
                [] \<Rightarrow> Inr []
              | (n, attrs, cs) # rest \<Rightarrow> Inr ((n, attrs, cs @ [CharData s]) # rest))))"

text \<open>An element is complete: the root ends the reading, any other joins its parent.\<close>

definition closeElement :: "xml \<Rightarrow> frame list \<Rightarrow> decoder" where
  "closeElement el stack =
     (case stack of
        [] \<Rightarrow> Finished el
      | (n, attrs, cs) # rest \<Rightarrow> Reading (InText []) ((n, attrs, cs @ [el]) # rest))"

definition stepEndSpace :: "string \<Rightarrow> frame list \<Rightarrow> char \<Rightarrow> decoder" where
  "stepEndSpace name stack c =
     (if isSpace c then Reading (InEndSpace name) stack
      else if c = CHR ''>'' then
        (case stack of
           [] \<Rightarrow> Failed SyntaxError
         | (n, attrs, cs) # rest \<Rightarrow>
             if n = name then closeElement (Element n attrs cs) rest else Failed SyntaxError)
      else Failed SyntaxError)"

definition stepAttrs :: "string \<Rightarrow> (string \<times> string) list \<Rightarrow> frame list \<Rightarrow> char \<Rightarrow> decoder" where
  "stepAttrs name attrs stack c =
     (if isSpace c then Reading (InAttrs name attrs) stack
      else if c = CHR ''/'' then Reading (InSlash name attrs) stack
      else if c = CHR ''>'' then Reading (InText []) ((name, attrs, []) # stack)
      else if isNameByte c then Reading (InAttrName name attrs [c]) stack
      else Failed SyntaxError)"

definition stepAttrEq ::
  "string \<Rightarrow> (string \<times> string) list \<Rightarrow> string \<Rightarrow> frame list \<Rightarrow> char \<Rightarrow> decoder" where
  "stepAttrEq name attrs aname stack c =
     (if isSpace c then Reading (InAttrEq name attrs aname) stack
      else if c = CHR ''='' then Reading (InAttrQuote name attrs aname) stack
      else Failed SyntaxError)"

fun stepMode :: "mode \<Rightarrow> frame list \<Rightarrow> char \<Rightarrow> decoder" where
  "stepMode (InText acc) stack c =
     (if c = CHR ''<'' then
        (case flushText acc stack of
           Inl e \<Rightarrow> Failed e
         | Inr stack' \<Rightarrow> Reading InTagOpen stack')
      else Reading (InText (acc @ [c])) stack)"
| "stepMode InTagOpen stack c =
     (if c = CHR ''/'' then Reading (InEndName []) stack
      else if c = CHR ''?'' \<or> c = CHR ''!'' then Failed Unsupported
      else if isNameByte c then Reading (InStartName [c]) stack
      else Failed SyntaxError)"
| "stepMode (InEndName acc) stack c =
     (if isNameByte c then Reading (InEndName (acc @ [c])) stack
      else
        (case checkName acc of
           Some e \<Rightarrow> Failed e
         | None \<Rightarrow> stepEndSpace acc stack c))"
| "stepMode (InEndSpace name) stack c = stepEndSpace name stack c"
| "stepMode (InStartName acc) stack c =
     (if isNameByte c then Reading (InStartName (acc @ [c])) stack
      else
        (case checkName acc of
           Some e \<Rightarrow> Failed e
         | None \<Rightarrow> stepAttrs acc [] stack c))"
| "stepMode (InAttrs name attrs) stack c = stepAttrs name attrs stack c"
| "stepMode (InAttrName name attrs acc) stack c =
     (if isNameByte c then Reading (InAttrName name attrs (acc @ [c])) stack
      else
        (case checkName acc of
           Some e \<Rightarrow> Failed e
         | None \<Rightarrow> stepAttrEq name attrs acc stack c))"
| "stepMode (InAttrEq name attrs aname) stack c = stepAttrEq name attrs aname stack c"
| "stepMode (InAttrQuote name attrs aname) stack c =
     (if isSpace c then Reading (InAttrQuote name attrs aname) stack
      else if c = CHR 0x22 \<or> c = CHR 0x27 then Reading (InAttrValue name attrs aname c []) stack
      else Failed SyntaxError)"
| "stepMode (InAttrValue name attrs aname q acc) stack c =
     (if c = q then
        (if hasCDataEnd acc then Failed SyntaxError
         else
           (case unescape acc of
              Inl e \<Rightarrow> Failed e
            | Inr v \<Rightarrow> Reading (InAttrs name (attrs @ [(aname, v)])) stack))
      else if c = CHR ''<'' then Failed SyntaxError
      else Reading (InAttrValue name attrs aname q (acc @ [c])) stack)"
| "stepMode (InSlash name attrs) stack c =
     (if c = CHR ''>'' then closeElement (Element name attrs []) stack
      else Failed SyntaxError)"

text \<open>One byte of input.\<close>

fun step :: "decoder \<Rightarrow> char \<Rightarrow> decoder" where
  "step (Finished el) c = Finished el"
| "step (Failed e) c = Failed e"
| "step (Reading m stack) c =
     (let b = (of_char c :: nat) in
      if 0x80 \<le> b \<or> c = CHR 0x0D then Failed Unsupported
      else if b < 0x20 \<and> c \<noteq> CHR 0x0A \<and> c \<noteq> CHR 0x09 then Failed SyntaxError
      else stepMode m stack c)"

definition readDocument :: "string \<Rightarrow> xmlError + xml" where
  "readDocument data =
     (case foldl step (Reading (InText []) []) data of
        Finished el \<Rightarrow> Inr el
      | Failed e \<Rightarrow> Inl e
      | Reading m stack \<Rightarrow> Inl UnexpectedEOF)"

subsection \<open>Filling the structs\<close>

fun attributes :: "xml \<Rightarrow> (string \<times> string) list" where
  "attributes (Element n attrs cs) = attrs"
| "attributes (CharData s) = []"
| "attributes (CDATA s) = []"

text \<open>What a \<open>string\<close> or \<open>,chardata\<close> field receives: the character data directly
  inside the element, child elements skipped.\<close>

fun textOf :: "xml \<Rightarrow> string" where
  "textOf (Element n attrs cs) = []"
| "textOf (CharData s) = s"
| "textOf (CDATA s) = s"

definition chardataOf :: "xml \<Rightarrow> string" where
  "chardataOf el = concat (map textOf (children el))"

text \<open>Running a step that can fail over a list, from left to right.\<close>

fun foldE :: "('s \<Rightarrow> 'a \<Rightarrow> xmlError + 's) \<Rightarrow> 's \<Rightarrow> 'a list \<Rightarrow> xmlError + 's" where
  "foldE f s [] = Inr s"
| "foldE f s (x # xs) = (case f s x of Inl e \<Rightarrow> Inl e | Inr s' \<Rightarrow> foldE f s' xs)"

text \<open>
  A struct whose \<open>XMLName\<close> tag names an element is only filled from an element of that
  name.
\<close>

definition expectName :: "string \<Rightarrow> xml \<Rightarrow> bool" where
  "expectName n el \<longleftrightarrow> elementName el = Some n"

definition zeroField :: Field where
  "zeroField = \<lparr>Field.Text = [], MatchingRule = [], Field.Name = [], DisplayName = []\<rparr>"

definition zeroEntity :: Entity where
  "zeroEntity = NewEntity [] [] []"

definition setFieldAttr :: "Field \<Rightarrow> string \<times> string \<Rightarrow> Field" where
  "setFieldAttr f a =
     (if fst a = ''MatchingRule'' then f\<lparr>MatchingRule := snd a\<rparr>
      else if fst a = ''Name'' then f\<lparr>Field.Name := snd a\<rparr>
      else if fst a = ''DisplayName'' then f\<lparr>DisplayName := snd a\<rparr>
      else f)"

definition unmarshalField :: "Field \<Rightarrow> xml \<Rightarrow> xmlError + Field" where
  "unmarshalField f el =
     Inr ((foldl setFieldAttr f (attributes el))\<lparr>Field.Text := chardataOf el\<rparr>)"

definition unmarshalAdditionalFieldsChild ::
  "AdditionalFields \<Rightarrow> xml \<Rightarrow> xmlError + AdditionalFields" where
  "unmarshalAdditionalFieldsChild fs child =
     (if elementName child = Some ''Field'' then
        (case unmarshalField zeroField child of
           Inl e \<Rightarrow> Inl e
         | Inr f \<Rightarrow> Inr (fs\<lparr>AdditionalFields.Items := AdditionalFields.Items fs @ [f]\<rparr>))
      else Inr fs)"

definition unmarshalAdditionalFields ::
  "AdditionalFields \<Rightarrow> xml \<Rightarrow> xmlError + AdditionalFields" where
  "unmarshalAdditionalFields fs el =
     (if \<not> expectName ''AdditionalFields'' el then Inl UnmarshalError
      else foldE unmarshalAdditionalFieldsChild fs (children el))"

definition setGenealogyTypeAttr :: "GenealogyType \<Rightarrow> string \<times> string \<Rightarrow> GenealogyType" where
  "setGenealogyTypeAttr g a =
     (if fst a = ''Name'' then g\<lparr>GenealogyType.Name := snd a\<rparr>
      else if fst a = ''OldName'' then g\<lparr>OldName := snd a\<rparr>
      else g)"

definition unmarshalGenealogyChild :: "Genealogy \<Rightarrow> xml \<Rightarrow> xmlError + Genealogy" where
  "unmarshalGenealogyChild g child =
     (if elementName child = Some ''Type'' then
        Inr (g\<lparr>Genealogy.Type := foldl setGenealogyTypeAttr (Genealogy.Type g) (attributes child)\<rparr>)
      else Inr g)"

definition unmarshalGenealogy :: "Genealogy \<Rightarrow> xml \<Rightarrow> xmlError + Genealogy" where
  "unmarshalGenealogy g el = foldE unmarshalGenealogyChild g (children el)"

definition setDisplayLabelAttr :: "DisplayLabel \<Rightarrow> string \<times> string \<Rightarrow> DisplayLabel" where
  "setDisplayLabelAttr l a =
     (if fst a = ''Name'' then l\<lparr>DisplayLabel.Name := snd a\<rparr>
      else if fst a = ''Type'' then l\<lparr>DisplayLabel.Type := snd a\<rparr>
      else l)"

definition unmarshalDisplayLabel :: "DisplayLabel \<Rightarrow> xml \<Rightarrow> xmlError + DisplayLabel" where
  "unmarshalDisplayLabel l el =
     (if \<not> expectName ''Label'' el then Inl UnmarshalError
      else Inr ((foldl setDisplayLabelAttr l (attributes el))\<lparr>DisplayLabel.Text := chardataOf el\<rparr>))"

definition unmarshalDisplayInformationChild ::
  "DisplayInformation \<Rightarrow> xml \<Rightarrow> xmlError + DisplayInformation" where
  "unmarshalDisplayInformationChild i child =
     (if elementName child = Some ''Label'' then
        (case unmarshalDisplayLabel
                \<lparr>DisplayLabel.Text = [], DisplayLabel.Name = [], DisplayLabel.Type = []\<rparr> child of
           Inl e \<Rightarrow> Inl e
         | Inr l \<Rightarrow> Inr (i\<lparr>Labels := Labels i @ [l]\<rparr>))
      else Inr i)"

definition unmarshalDisplayInformation ::
  "DisplayInformation \<Rightarrow> xml \<Rightarrow> xmlError + DisplayInformation" where
  "unmarshalDisplayInformation i el = foldE unmarshalDisplayInformationChild i (children el)"

definition setEntityAttr :: "Entity \<Rightarrow> string \<times> string \<Rightarrow> Entity" where
  "setEntityAttr e a = (if fst a = ''Type'' then e\<lparr>Entity.Type := snd a\<rparr> else e)"

definition unmarshalEntityChild :: "Entity \<Rightarrow> xml \<Rightarrow> xmlError + Entity" where
  "unmarshalEntityChild e child =
     (if elementName child = Some ''Genealogy'' then
        (case unmarshalGenealogy
                (case Genealogy e of
                   None \<Rightarrow> \<lparr>Genealogy.Type = \<lparr>GenealogyType.Name = [], OldName = []\<rparr>\<rparr>
                 | Some g \<Rightarrow> g) child of
           Inl err \<Rightarrow> Inl err
         | Inr g \<Rightarrow> Inr (e\<lparr>Genealogy := Some g\<rparr>))
      else if elementName child = Some ''Value'' then Inr (e\<lparr>Entity.Value := chardataOf child\<rparr>)
      else if elementName child = Some ''Weight'' then Inr (e\<lparr>Weight := chardataOf child\<rparr>)
      else if elementName child = Some ''DisplayInformation'' then
        (case unmarshalDisplayInformation
                (case Info e of None \<Rightarrow> \<lparr>Labels = []\<rparr> | Some i \<Rightarrow> i) child of
           Inl err \<Rightarrow> Inl err
         | Inr i \<Rightarrow> Inr (e\<lparr>Info := Some i\<rparr>))
      else if elementName child = Some ''IconURL'' then Inr (e\<lparr>IconURL := chardataOf child\<rparr>)
      else if elementName child = Some ''AdditionalFields'' then
        (case unmarshalAdditionalFields
                (case Entity.Fields e of
                   None \<Rightarrow> \<lparr>AdditionalFields.Items = []\<rparr>
                 | Some fs \<Rightarrow> fs) child of
           Inl err \<Rightarrow> Inl err
         | Inr fs \<Rightarrow> Inr (e\<lparr>Entity.Fields := Some fs\<rparr>))
      else Inr e)"

definition unmarshalEntity :: "Entity \<Rightarrow> xml \<Rightarrow> xmlError + Entity" where
  "unmarshalEntity e el =
     (if \<not> expectName ''Entity'' el then Inl UnmarshalError
      else foldE unmarshalEntityChild (foldl setEntityAttr e (attributes el)) (children el))"

definition unmarshalEntitiesChild :: "Entities \<Rightarrow> xml \<Rightarrow> xmlError + Entities" where
  "unmarshalEntitiesChild es child =
     (if elementName child = Some ''Entity'' then
        (case unmarshalEntity zeroEntity child of
           Inl e \<Rightarrow> Inl e
         | Inr ent \<Rightarrow> Inr (es\<lparr>Entities.Items := Entities.Items es @ [ent]\<rparr>))
      else Inr es)"

definition unmarshalEntities :: "Entities \<Rightarrow> xml \<Rightarrow> xmlError + Entities" where
  "unmarshalEntities es el = foldE unmarshalEntitiesChild es (children el)"

definition setUIMessageAttr :: "UIMessage \<Rightarrow> string \<times> string \<Rightarrow> UIMessage" where
  "setUIMessageAttr m a = (if fst a = ''MessageType'' then m\<lparr>MessageType := snd a\<rparr> else m)"

definition unmarshalUIMessagesChild :: "UIMessages \<Rightarrow> xml \<Rightarrow> xmlError + UIMessages" where
  "unmarshalUIMessagesChild ms child =
     (if elementName child = Some ''UIMessage'' then
        Inr (ms\<lparr>UIMessages.Items := UIMessages.Items ms
               @ [(foldl setUIMessageAttr \<lparr>UIMessage.Text = [], MessageType = []\<rparr>
                     (attributes child))\<lparr>UIMessage.Text := chardataOf child\<rparr>]\<rparr>)
      else Inr ms)"

definition unmarshalResponseMessageChild ::
  "ResponseMessage \<Rightarrow> xml \<Rightarrow> xmlError + ResponseMessage" where
  "unmarshalResponseMessageChild rm child =
     (if elementName child = Some ''Entities'' then
        (case unmarshalEntities (ResponseMessage.Entities rm) child of
           Inl e \<Rightarrow> Inl e
         | Inr es \<Rightarrow> Inr (rm\<lparr>ResponseMessage.Entities := es\<rparr>))
      else if elementName child = Some ''UIMessages'' then
        (case foldE unmarshalUIMessagesChild (UIMessages rm) (children child) of
           Inl e \<Rightarrow> Inl e
         | Inr ms \<Rightarrow> Inr (rm\<lparr>UIMessages := ms\<rparr>))
      else Inr rm)"

definition setExceptionAttr :: "Exception \<Rightarrow> string \<times> string \<Rightarrow> Exception" where
  "setExceptionAttr x a = (if fst a = ''code'' then x\<lparr>Code := snd a\<rparr> else x)"

definition unmarshalExceptionsChild :: "Exceptions \<Rightarrow> xml \<Rightarrow> xmlError + Exceptions" where
  "unmarshalExceptionsChild xs child =
     (if elementName child = Some ''Exception'' then
        Inr (xs\<lparr>Exceptions.Items := Exceptions.Items xs
               @ [(foldl setExceptionAttr \<lparr>Exception.Text = [], Code = []\<rparr>
                     (attributes child))\<lparr>Exception.Text := chardataOf child\<rparr>]\<rparr>)
      else Inr xs)"

definition unmarshalExceptionMessageChild ::
  "ExceptionMessage \<Rightarrow> xml \<Rightarrow> xmlError + ExceptionMessage" where
  "unmarshalExceptionMessageChild em child =
     (if elementName child = Some ''Exceptions'' then
        (case foldE unmarshalExceptionsChild (Exceptions em) (children child) of
           Inl e \<Rightarrow> Inl e
         | Inr xs \<Rightarrow> Inr (em\<lparr>Exceptions := xs\<rparr>))
      else Inr em)"

definition setLimitsAttr :: "Limits \<Rightarrow> string \<times> string \<Rightarrow> Limits" where
  "setLimitsAttr l a =
     (if fst a = ''HardLimit'' then l\<lparr>HardLimit := snd a\<rparr>
      else if fst a = ''SoftLimit'' then l\<lparr>SoftLimit := snd a\<rparr>
      else l)"

definition unmarshalLimits :: "Limits \<Rightarrow> xml \<Rightarrow> xmlError + Limits" where
  "unmarshalLimits l el =
     (if \<not> expectName ''Limits'' el then Inl UnmarshalError
      else Inr (foldl setLimitsAttr l (attributes el)))"

definition setTransformFieldAttr :: "TransformField \<Rightarrow> string \<times> string \<Rightarrow> TransformField" where
  "setTransformFieldAttr f a =
     (if fst a = ''Name'' then f\<lparr>TransformField.Name := snd a\<rparr> else f)"

definition unmarshalTransformFieldsChild ::
  "TransformFields \<Rightarrow> xml \<Rightarrow> xmlError + TransformFields" where
  "unmarshalTransformFieldsChild fs child =
     (if elementName child = Some ''Field'' then
        Inr (fs\<lparr>TransformFields.Fields := TransformFields.Fields fs
               @ [(foldl setTransformFieldAttr
                     \<lparr>TransformField.Text = [], TransformField.Name = []\<rparr>
                     (attributes child))\<lparr>TransformField.Text := chardataOf child\<rparr>]\<rparr>)
      else Inr fs)"

definition unmarshalRequestMessageChild ::
  "RequestMessage \<Rightarrow> xml \<Rightarrow> xmlError + RequestMessage" where
  "unmarshalRequestMessageChild rq child =
     (if elementName child = Some ''Entities'' then
        (case unmarshalEntities (RequestMessage.Entities rq) child of
           Inl e \<Rightarrow> Inl e
         | Inr es \<Rightarrow> Inr (rq\<lparr>RequestMessage.Entities := es\<rparr>))
      else if elementName child = Some ''Limits'' then
        (case unmarshalLimits (Limits rq) child of
           Inl e \<Rightarrow> Inl e
         | Inr l \<Rightarrow> Inr (rq\<lparr>Limits := l\<rparr>))
      else if elementName child = Some ''TransformFields'' then
        (case foldE unmarshalTransformFieldsChild (TransformFields rq) (children child) of
           Inl e \<Rightarrow> Inl e
         | Inr fs \<Rightarrow> Inr (rq\<lparr>TransformFields := fs\<rparr>))
      else Inr rq)"

definition zeroRequestMessage :: RequestMessage where
  "zeroRequestMessage =
     \<lparr>RequestMessage.Entities = \<lparr>Entities.Items = []\<rparr>,
      Limits = \<lparr>HardLimit = [], SoftLimit = []\<rparr>,
      TransformFields = \<lparr>TransformFields.Fields = []\<rparr>\<rparr>"

text \<open>
  The root: each child element named like one of the three payload tags fills that payload,
  allocating it when the pointer is nil; any other child is skipped.
\<close>

definition unmarshalTransformChild :: "Transform \<Rightarrow> xml \<Rightarrow> xmlError + Transform" where
  "unmarshalTransformChild tr child =
     (if elementName child = Some ''MaltegoTransformResponseMessage'' then
        (case foldE unmarshalResponseMessageChild
                (case ResponseMessage tr of None \<Rightarrow> zeroResponseMessage | Some rm \<Rightarrow> rm)
                (children child) of
           Inl e \<Rightarrow> Inl e
         | Inr rm \<Rightarrow> Inr (tr\<lparr>ResponseMessage := Some rm\<rparr>))
      else if elementName child = Some ''MaltegoTransformExceptionMessage'' then
        (case foldE unmarshalExceptionMessageChild
                (case ExceptionMessage tr of None \<Rightarrow> zeroExceptionMessage | Some em \<Rightarrow> em)
                (children child) of
           Inl e \<Rightarrow> Inl e
         | Inr em \<Rightarrow> Inr (tr\<lparr>ExceptionMessage := Some em\<rparr>))
      else if elementName child = Some ''MaltegoTransformRequestMessage'' then
        (case foldE unmarshalRequestMessageChild
                (case RequestMessage tr of None \<Rightarrow> zeroRequestMessage | Some rq \<Rightarrow> rq)
                (children child) of
           Inl e \<Rightarrow> Inl e
         | Inr rq \<Rightarrow> Inr (tr\<lparr>RequestMessage := Some rq\<rparr>))
      else Inr tr)"

definition unmarshalTransform :: "Transform \<Rightarrow> xml \<Rightarrow> xmlError + Transform" where
  "unmarshalTransform tr el =
     (if \<not> expectName ''MaltegoMessage'' el then Inl UnmarshalError
      else foldE unmarshalTransformChild tr (children el))"

text \<open>\<open>xml.Unmarshal(data, tr)\<close>: the envelope after decoding, or the error.\<close>

definition xml_Unmarshal :: "string \<Rightarrow> Transform \<Rightarrow> xmlError + Transform" where
  "xml_Unmarshal data tr =
     (case readDocument data of
        Inl e \<Rightarrow> Inl e
      | Inr el \<Rightarrow> unmarshalTransform tr el)"


text \<open>The request document of the package's test \<open>TestParseMaltegoToTDS\<close>.\<close>

definition maltegoToTDS :: string where
  \<open>maltegoToTDS =
     ''<MaltegoMessage>''
     @ [CHR 0x0A, CHR 0x09, CHR 0x09]
     @ ''<MaltegoTransformRequestMessage>''
     @ [CHR 0x0A, CHR 0x09, CHR 0x09, CHR 0x09]
     @ ''<Entities>''
     @ [CHR 0x0A, CHR 0x09, CHR 0x09, CHR 0x09, CHR 0x09]
     @ ''<Entity Type="DNSName">''
     @ [CHR 0x0A, CHR 0x09, CHR 0x09, CHR 0x09, CHR 0x09, CHR 0x09]
     @ ''<Genealogy>''
     @ [CHR 0x0A, CHR 0x09, CHR 0x09, CHR 0x09, CHR 0x09, CHR 0x09, CHR 0x09]
     @ ''<Type Name="maltego.DNSName" OldName="DNSName"/>''
     @ [CHR 0x0A, CHR 0x09, CHR 0x09, CHR 0x09, CHR 0x09, CHR 0x09]
     @ ''</Genealogy>''
     @ [CHR 0x0A, CHR 0x09, CHR 0x09, CHR 0x09, CHR 0x09, CHR 0x09]
     @ ''<AdditionalFields>''
     @ [CHR 0x0A, CHR 0x09, CHR 0x09, CHR 0x09, CHR 0x09, CHR 0x09, CHR 0x09]
     @ ''<Field Name="fqdn" DisplayName="DNS Name">alpine.paterva.com</Field>''
     @ [CHR 0x0A, CHR 0x09, CHR 0x09, CHR 0x09, CHR 0x09, CHR 0x09]
     @ ''</AdditionalFields>''
     @ [CHR 0x0A, CHR 0x09, CHR 0x09, CHR 0x09, CHR 0x09, CHR 0x09]
     @ ''<Value>alpine.paterva.com</Value>''
     @ [CHR 0x0A, CHR 0x09, CHR 0x09, CHR 0x09, CHR 0x09, CHR 0x09]
     @ ''<Weight>0</Weight>''
     @ [CHR 0x0A, CHR 0x09, CHR 0x09, CHR 0x09, CHR 0x09]
     @ ''</Entity>''
     @ [CHR 0x0A, CHR 0x09, CHR 0x09, CHR 0x09]
     @ ''</Entities>''
     @ [CHR 0x0A, CHR 0x09, CHR 0x09, CHR 0x09]
     @ ''<Limits SoftLimit="256" HardLimit="256"/>''
     @ [CHR 0x0A, CHR 0x09, CHR 0x09]
     @ ''</MaltegoTransformRequestMessage>''
     @ [CHR 0x0A, CHR 0x09]
     @ ''</MaltegoMessage>''\<close>


section \<open>Sequences of helper calls\<close>

text \<open>
  A handler calls the helpers in some order on one envelope. A call is recorded with its
  arguments; \<open>applyCalls\<close> runs a sequence of calls from left to right.
\<close>

datatype call =
    CallAddEntity string string
  | CallAddUIMessage string string
  | CallAddException string string

fun applyCall :: "Transform \<Rightarrow> call \<Rightarrow> Transform" where
  "applyCall tr (CallAddEntity typ val) = snd (AddEntity tr typ val)"
| "applyCall tr (CallAddUIMessage message messageType) = AddUIMessage tr message messageType"
| "applyCall tr (CallAddException exceptionString code) = AddException tr exceptionString code"

definition applyCalls :: "Transform \<Rightarrow> call list \<Rightarrow> Transform" where
  "applyCalls tr cs = foldl applyCall tr cs"

fun stagesResponse :: "call \<Rightarrow> bool" where
  "stagesResponse (CallAddEntity typ val) = True"
| "stagesResponse (CallAddUIMessage message messageType) = True"
| "stagesResponse (CallAddException exceptionString code) = False"

fun stagesException :: "call \<Rightarrow> bool" where
  "stagesException (CallAddEntity typ val) = False"
| "stagesException (CallAddUIMessage message messageType) = False"
| "stagesException (CallAddException exceptionString code) = True"

text \<open>An element has a child element of the given name.\<close>

definition hasChild :: "string \<Rightarrow> xml \<Rightarrow> bool" where
  "hasChild n x \<longleftrightarrow> n \<in> set (childNames x)"


text \<open>
  The envelope a handler receives from \<open>MakeHandler\<close>: decoded from a request, so
  only the request payload is set (here the request entity of the package's parsing test).
\<close>

definition requestEnvelope :: Transform where
  "requestEnvelope =
     \<lparr>ResponseMessage = None, ExceptionMessage = None,
      RequestMessage = Some
        \<lparr>RequestMessage.Entities =
           \<lparr>Entities.Items = [NewEntity ''DNSName'' ''alpine.paterva.com'' ''0'']\<rparr>,
         Limits = \<lparr>HardLimit = ''256'', SoftLimit = ''256''\<rparr>,
         TransformFields = \<lparr>TransformFields.Fields = []\<rparr>\<rparr>\<rparr>"




text \<open>The fields of an entity (none when the collection is unset).\<close>

definition fieldItems :: "Entity \<Rightarrow> Field list" where
  "fieldItems tre =
     (case Entity.Fields tre of None \<Rightarrow> [] | Some fs \<Rightarrow> AdditionalFields.Items fs)"

text \<open>
  A sequence of \<open>AddProperty\<close> calls on one entity, each call given as
  (fieldName, displayName, matchingRule, value), and the field a call appends.
\<close>

fun AddProperties :: "Entity \<Rightarrow> (string \<times> string \<times> string \<times> string) list \<Rightarrow> Entity" where
  "AddProperties tre [] = tre"
| "AddProperties tre ((fieldName, displayName, matchingRule, val) # calls) =
     AddProperties (AddProperty tre fieldName displayName matchingRule val) calls"

fun newField :: "string \<times> string \<times> string \<times> string \<Rightarrow> Field" where
  "newField (fieldName, displayName, matchingRule, val) =
     \<lparr>Field.Text = EscapeText val, MatchingRule = matchingRule,
      Field.Name = fieldName, DisplayName = displayName\<rparr>"




section \<open>Evaluation rules and general lemmas\<close>

lemmas marshal_defs =
  xml_Marshal_def marshalTransform_def payloadElements_def marshalResponseMessage_def
  marshalExceptionMessage_def marshalRequestMessage_def marshalEntities_def
  marshalEntity_def marshalUIMessage_def marshalException_def marshalLimits_def
  marshalTransformField_def marshalField_def marshalAdditionalFields_def
  marshalGenealogy_def marshalDisplayLabel_def marshalDisplayInformation_def
  stringElement_def renderAttr_def emitCDATA_def

lemmas helper_defs =
  AddEntity_def AddUIMessage_def AddException_def NewEntity_def zeroTransform_def
  zeroResponseMessage_def zeroExceptionMessage_def ReturnOutput_def ThrowExceptions_def

lemmas escape_defs =
  EscapeText_def newlineReplacer_def escapeRune_def isInCharacterRange_def escFFFD_def
  RuneError_def

lemmas reader_defs =
  readDocument_def isNameByte_def isSpace_def checkName_def lookupEntity_def flushText_def
  closeElement_def stepEndSpace_def stepAttrs_def stepAttrEq_def Let_def

lemmas unmarshal_defs =
  xml_Unmarshal_def unmarshalTransform_def unmarshalTransformChild_def
  unmarshalRequestMessageChild_def unmarshalResponseMessageChild_def
  unmarshalExceptionMessageChild_def unmarshalExceptionsChild_def unmarshalUIMessagesChild_def
  unmarshalTransformFieldsChild_def unmarshalLimits_def unmarshalEntities_def
  unmarshalEntitiesChild_def unmarshalEntity_def unmarshalEntityChild_def
  unmarshalAdditionalFields_def unmarshalAdditionalFieldsChild_def unmarshalField_def
  unmarshalGenealogy_def unmarshalGenealogyChild_def unmarshalDisplayInformation_def
  unmarshalDisplayInformationChild_def unmarshalDisplayLabel_def
  setFieldAttr_def setGenealogyTypeAttr_def setDisplayLabelAttr_def setEntityAttr_def
  setUIMessageAttr_def setExceptionAttr_def setLimitsAttr_def setTransformFieldAttr_def
  expectName_def chardataOf_def zeroField_def zeroEntity_def zeroRequestMessage_def


lemma childNames_marshalTransform:
  "childNames (marshalTransform tr) =
     (if ResponseMessage tr = None then [] else [''MaltegoTransformResponseMessage''])
     @ (if ExceptionMessage tr = None then [] else [''MaltegoTransformExceptionMessage''])
     @ (if RequestMessage tr = None then [] else [''MaltegoTransformRequestMessage''])"
  by (simp add: childNames_def marshal_defs List.map_filter_simps split: option.splits)

lemma applyCall_Response:
  "ResponseMessage (applyCall tr c) \<noteq> None \<longleftrightarrow> ResponseMessage tr \<noteq> None \<or> stagesResponse c"
  by (cases c) (simp_all add: helper_defs Let_def)

lemma applyCall_Exception:
  "ExceptionMessage (applyCall tr c) \<noteq> None \<longleftrightarrow> ExceptionMessage tr \<noteq> None \<or> stagesException c"
  by (cases c) (simp_all add: helper_defs Let_def)

lemma applyCalls_Response:
  "ResponseMessage (applyCalls tr cs) \<noteq> None
     \<longleftrightarrow> ResponseMessage tr \<noteq> None \<or> (\<exists>c \<in> set cs. stagesResponse c)"
  unfolding applyCalls_def
proof (induction cs arbitrary: tr)
  case Nil
  then show ?case by simp
next
  case (Cons c cs)
  show ?case using Cons.IH [of "applyCall tr c"] applyCall_Response [of tr c] by auto
qed

lemma applyCalls_Exception:
  "ExceptionMessage (applyCalls tr cs) \<noteq> None
     \<longleftrightarrow> ExceptionMessage tr \<noteq> None \<or> (\<exists>c \<in> set cs. stagesException c)"
  unfolding applyCalls_def
proof (induction cs arbitrary: tr)
  case Nil
  then show ?case by simp
next
  case (Cons c cs)
  show ?case using Cons.IH [of "applyCall tr c"] applyCall_Exception [of tr c] by auto
qed

lemma sublist_inside: "sublist x y \<Longrightarrow> sublist x (a @ y @ b)"
proof -
  assume "sublist x y"
  then obtain ps ss where "y = ps @ x @ ss" by (auto simp: sublist_def)
  then have "a @ y @ b = (a @ ps) @ x @ (ss @ b)" by simp
  then show ?thesis unfolding sublist_def by blast
qed

lemma sublist_concat_member: "x \<in> set xs \<Longrightarrow> sublist x (concat xs)"
proof -
  assume "x \<in> set xs"
  then obtain ys zs where "xs = ys @ x # zs" by (auto dest: split_list)
  then have "concat xs = concat ys @ x @ concat zs" by simp
  then show ?thesis unfolding sublist_def by blast
qed

lemma sublist_render_child:
  "c \<in> set cs \<Longrightarrow> sublist (render c) (render (Element n attrs cs))"
proof -
  assume "c \<in> set cs"
  then have "render c \<in> set (map render cs)" by simp
  then have "sublist (render c) (concat (map render cs))" by (rule sublist_concat_member)
  then have "sublist (render c)
     ((''<'' @ n @ concat (map renderAttr attrs) @ ''>'') @ concat (map render cs)
        @ (''</'' @ n @ ''>''))"
    by (rule sublist_inside)
  then show ?thesis by simp
qed









section \<open>The encoding tests of the package\<close>

text \<open>
  The expected texts of \<open>TestTransformViaHelpers\<close>, \<open>TestTransformEntity\<close> and
  \<open>TestTransformThrowException\<close> are the texts the model produces.
\<close>

lemma TestTransformViaHelpers:
  \<open>ReturnOutput (applyCalls zeroTransform
      [CallAddEntity ''type'' ''value'', CallAddEntity ''type2'' ''value2'',
       CallAddUIMessage ''message'' ''Debug'', CallAddUIMessage ''message2'' ''Debug''])
   = ''<MaltegoMessage><MaltegoTransformResponseMessage><Entities><Entity Type="type"><Value>value</Value><Weight>100</Weight></Entity><Entity Type="type2"><Value>value2</Value><Weight>100</Weight></Entity></Entities><UIMessages><UIMessage MessageType="Debug">message</UIMessage><UIMessage MessageType="Debug">message2</UIMessage></UIMessages></MaltegoTransformResponseMessage></MaltegoMessage>''\<close>
  by (simp add: applyCalls_def helper_defs marshal_defs escape_defs Let_def)

lemma TestTransformEntity:
  \<open>render (marshalEntity
      \<lparr>Entity.Type = ''type'', Genealogy = None, Entity.Value = ''value'', Weight = ''10'',
       Info = Some \<lparr>Labels = [NewDisplayLabel ''name'' ''text'', NewDisplayLabel ''name2'' ''text2'']\<rparr>,
       IconURL = ''http://asdf.com'', Entity.Fields = None\<rparr>)
   = ''<Entity Type="type"><Value>value</Value><Weight>10</Weight><DisplayInformation><Label Name="text" Type="text/html"><![CDATA[name]]></Label><Label Name="text2" Type="text/html"><![CDATA[name2]]></Label></DisplayInformation><IconURL>http://asdf.com</IconURL></Entity>''\<close>
  by (simp add: NewDisplayLabel_def marshal_defs escape_defs Let_def)

lemma TestTransformThrowException:
  \<open>fst (ThrowExceptions (AddException zeroTransform ''oops'' ''errorCode''))
   = ''<MaltegoMessage><MaltegoTransformExceptionMessage><Exceptions><Exception code="errorCode">oops</Exception></Exceptions></MaltegoTransformExceptionMessage></MaltegoMessage>''\<close>
  by (simp add: helper_defs marshal_defs escape_defs Let_def)


section \<open>Frame properties of the envelope helpers\<close>

text \<open>
  Claim C10. Each envelope helper changes only its own payload field: \<open>AddEntity\<close>
  and \<open>AddUIMessage\<close> leave the exception payload and the request payload as they
  were, \<open>AddException\<close> leaves the response payload and the request payload as they
  were; in particular a response payload staged before \<open>AddException\<close> is still
  there, unchanged, after it.
\<close>

theorem helpers_frame:
  "ExceptionMessage (snd (AddEntity tr typ val)) = ExceptionMessage tr
   \<and> RequestMessage (snd (AddEntity tr typ val)) = RequestMessage tr
   \<and> ExceptionMessage (AddUIMessage tr message messageType) = ExceptionMessage tr
   \<and> RequestMessage (AddUIMessage tr message messageType) = RequestMessage tr
   \<and> ResponseMessage (AddException tr exceptionString code) = ResponseMessage tr
   \<and> RequestMessage (AddException tr exceptionString code) = RequestMessage tr
   \<and> snd (AddEntity tr typ val) = tr\<lparr>ResponseMessage := ResponseMessage (snd (AddEntity tr typ val))\<rparr>
   \<and> AddUIMessage tr message messageType
       = tr\<lparr>ResponseMessage := ResponseMessage (AddUIMessage tr message messageType)\<rparr>
   \<and> AddException tr exceptionString code
       = tr\<lparr>ExceptionMessage := ExceptionMessage (AddException tr exceptionString code)\<rparr>"
  by (simp add: AddEntity_def AddUIMessage_def AddException_def Let_def)


section \<open>Mutual exclusion of the payloads\<close>

text \<open>
  Claim C2, as stated, fails: \<open>AddException\<close> leaves a staged response payload in
  place, so after \<open>AddEntity\<close> and \<open>AddException\<close> the text of
  \<open>ReturnOutput\<close> holds both a \<open>MaltegoTransformResponseMessage\<close> and a
  \<open>MaltegoTransformExceptionMessage\<close> element.
\<close>

theorem ReturnOutput_renders_both_counterexample:
  \<open>ReturnOutput (applyCalls zeroTransform
       [CallAddEntity ''type'' ''value'', CallAddException ''oops'' ''errorCode''])
     = ''<MaltegoMessage><MaltegoTransformResponseMessage><Entities><Entity Type="type"><Value>value</Value><Weight>100</Weight></Entity></Entities><UIMessages></UIMessages></MaltegoTransformResponseMessage><MaltegoTransformExceptionMessage><Exceptions><Exception code="errorCode">oops</Exception></Exceptions></MaltegoTransformExceptionMessage></MaltegoMessage>''
   \<and> hasChild ''MaltegoTransformResponseMessage''
        (marshalTransform (applyCalls zeroTransform
           [CallAddEntity ''type'' ''value'', CallAddException ''oops'' ''errorCode'']))
   \<and> hasChild ''MaltegoTransformExceptionMessage''
        (marshalTransform (applyCalls zeroTransform
           [CallAddEntity ''type'' ''value'', CallAddException ''oops'' ''errorCode'']))\<close>
  by (simp add: applyCalls_def helper_defs marshal_defs escape_defs hasChild_def
        childNames_def List.map_filter_simps Let_def)

text \<open>
  Claim C2, amended. After any sequence of \<open>AddEntity\<close>, \<open>AddUIMessage\<close>
  and \<open>AddException\<close> calls on any envelope, the text of \<open>ThrowExceptions\<close>
  never has a \<open>MaltegoTransformResponseMessage\<close> element (so never both); the text
  of \<open>ReturnOutput\<close> has a \<open>MaltegoTransformResponseMessage\<close> element
  exactly when a response payload is populated (it was before the calls, or one of them is an
  \<open>AddEntity\<close> or \<open>AddUIMessage\<close>) and a
  \<open>MaltegoTransformExceptionMessage\<close> element exactly when an exception payload is
  populated (it was before, or one of the calls is an \<open>AddException\<close>).
\<close>

theorem payloads_rendered_after_calls:
  "ReturnOutput (applyCalls tr cs) = render (marshalTransform (applyCalls tr cs))
   \<and> fst (ThrowExceptions (applyCalls tr cs))
       = render (marshalTransform (snd (ThrowExceptions (applyCalls tr cs))))
   \<and> \<not> hasChild ''MaltegoTransformResponseMessage''
          (marshalTransform (snd (ThrowExceptions (applyCalls tr cs))))
   \<and> (hasChild ''MaltegoTransformResponseMessage'' (marshalTransform (applyCalls tr cs))
        \<longleftrightarrow> ResponseMessage tr \<noteq> None \<or> (\<exists>c \<in> set cs. stagesResponse c))
   \<and> (hasChild ''MaltegoTransformExceptionMessage'' (marshalTransform (applyCalls tr cs))
        \<longleftrightarrow> ExceptionMessage tr \<noteq> None \<or> (\<exists>c \<in> set cs. stagesException c))"
proof -
  have a: "hasChild ''MaltegoTransformResponseMessage'' (marshalTransform t)
            \<longleftrightarrow> ResponseMessage t \<noteq> None" for t
    by (simp add: hasChild_def childNames_marshalTransform)
  have b: "hasChild ''MaltegoTransformExceptionMessage'' (marshalTransform t)
            \<longleftrightarrow> ExceptionMessage t \<noteq> None" for t
    by (simp add: hasChild_def childNames_marshalTransform)
  show ?thesis
    unfolding a b
    using applyCalls_Response [of tr cs] applyCalls_Exception [of tr cs]
    by (simp add: ReturnOutput_def ThrowExceptions_def xml_Marshal_def Let_def)
qed


theorem payloads_rendered_after_calls_witness:
  "\<not> hasChild ''MaltegoTransformResponseMessage''
          (marshalTransform (snd (ThrowExceptions (applyCalls zeroTransform
             [CallAddEntity ''type'' ''value'', CallAddException ''oops'' ''errorCode'']))))
   \<and> hasChild ''MaltegoTransformResponseMessage''
        (marshalTransform (applyCalls zeroTransform
           [CallAddEntity ''type'' ''value'', CallAddException ''oops'' ''errorCode'']))
   \<and> hasChild ''MaltegoTransformExceptionMessage''
        (marshalTransform (applyCalls zeroTransform
           [CallAddEntity ''type'' ''value'', CallAddException ''oops'' ''errorCode'']))
   \<and> \<not> hasChild ''MaltegoTransformExceptionMessage''
        (marshalTransform (applyCalls zeroTransform [CallAddEntity ''type'' ''value'']))"
  using payloads_rendered_after_calls [of zeroTransform
          "[CallAddEntity ''type'' ''value'', CallAddException ''oops'' ''errorCode'']"]
        payloads_rendered_after_calls [of zeroTransform "[CallAddEntity ''type'' ''value'']"]
  by (simp add: zeroTransform_def)


text \<open>
  Claim C3, as stated for every envelope, fails: on an envelope that carries a request
  payload (as every envelope handed to a handler does) \<open>ThrowExceptions\<close> renders
  the request payload after the exception payload, so the exception element is not the sole
  child of \<open>MaltegoMessage\<close>.
\<close>

theorem ThrowExceptions_sole_child_counterexample:
  \<open>fst (ThrowExceptions (AddException requestEnvelope ''oops'' ''errorCode''))
     = ''<MaltegoMessage><MaltegoTransformExceptionMessage><Exceptions><Exception code="errorCode">oops</Exception></Exceptions></MaltegoTransformExceptionMessage><MaltegoTransformRequestMessage><Entities><Entity Type="DNSName"><Value>alpine.paterva.com</Value><Weight>0</Weight></Entity></Entities><Limits HardLimit="256" SoftLimit="256"></Limits><TransformFields></TransformFields></MaltegoTransformRequestMessage></MaltegoMessage>''
   \<and> childNames (marshalTransform
         (snd (ThrowExceptions (AddException requestEnvelope ''oops'' ''errorCode''))))
       = [''MaltegoTransformExceptionMessage'', ''MaltegoTransformRequestMessage'']\<close>
  by (simp add: requestEnvelope_def helper_defs marshal_defs escape_defs
        childNames_def List.map_filter_simps Let_def)

text \<open>
  Claim C3, amended. For every envelope \<open>ThrowExceptions\<close> clears the response
  payload and marshals the result, so its output has no
  \<open>MaltegoTransformResponseMessage\<close> child whatever was added before; when the
  exception payload is present and the request payload is absent, the
  \<open>MaltegoTransformExceptionMessage\<close> element is the sole child of
  \<open>MaltegoMessage\<close>.
\<close>

theorem ThrowExceptions_clears_response:
  "snd (ThrowExceptions tr) = tr\<lparr>ResponseMessage := None\<rparr>
   \<and> fst (ThrowExceptions tr) = render (marshalTransform (tr\<lparr>ResponseMessage := None\<rparr>))
   \<and> \<not> hasChild ''MaltegoTransformResponseMessage''
          (marshalTransform (snd (ThrowExceptions tr)))
   \<and> (\<forall>em. ExceptionMessage tr = Some em \<and> RequestMessage tr = None \<longrightarrow>
          children (marshalTransform (snd (ThrowExceptions tr))) = [marshalExceptionMessage em]
          \<and> fst (ThrowExceptions tr)
              = ''<MaltegoMessage>'' @ render (marshalExceptionMessage em) @ ''</MaltegoMessage>'')"
proof -
  have s: "snd (ThrowExceptions tr) = tr\<lparr>ResponseMessage := None\<rparr>"
    and f: "fst (ThrowExceptions tr) = render (marshalTransform (tr\<lparr>ResponseMessage := None\<rparr>))"
    by (simp_all add: ThrowExceptions_def Let_def xml_Marshal_def)
  have n: "\<not> hasChild ''MaltegoTransformResponseMessage''
             (marshalTransform (snd (ThrowExceptions tr)))"
    unfolding s by (simp add: hasChild_def childNames_marshalTransform)
  have c: "children (marshalTransform (snd (ThrowExceptions tr))) = [marshalExceptionMessage em]
           \<and> fst (ThrowExceptions tr)
              = ''<MaltegoMessage>'' @ render (marshalExceptionMessage em) @ ''</MaltegoMessage>''"
    if "ExceptionMessage tr = Some em" "RequestMessage tr = None" for em
    unfolding s f using that by (simp add: marshalTransform_def payloadElements_def)
  show ?thesis using s f n c by blast
qed

theorem ThrowExceptions_clears_response_witness:
  \<open>ExceptionMessage (applyCalls zeroTransform
       [CallAddEntity ''type'' ''value'', CallAddUIMessage ''message'' ''Debug'',
        CallAddException ''oops'' ''errorCode''])
     = Some \<lparr>Exceptions = \<lparr>Exceptions.Items = [\<lparr>Exception.Text = ''oops'', Code = ''errorCode''\<rparr>]\<rparr>\<rparr>
   \<and> RequestMessage (applyCalls zeroTransform
       [CallAddEntity ''type'' ''value'', CallAddUIMessage ''message'' ''Debug'',
        CallAddException ''oops'' ''errorCode'']) = None
   \<and> ResponseMessage (applyCalls zeroTransform
       [CallAddEntity ''type'' ''value'', CallAddUIMessage ''message'' ''Debug'',
        CallAddException ''oops'' ''errorCode'']) \<noteq> None
   \<and> fst (ThrowExceptions (applyCalls zeroTransform
       [CallAddEntity ''type'' ''value'', CallAddUIMessage ''message'' ''Debug'',
        CallAddException ''oops'' ''errorCode'']))
     = ''<MaltegoMessage><MaltegoTransformExceptionMessage><Exceptions><Exception code="errorCode">oops</Exception></Exceptions></MaltegoTransformExceptionMessage></MaltegoMessage>''\<close>
proof -
  let ?tr = "applyCalls zeroTransform
       [CallAddEntity ''type'' ''value'', CallAddUIMessage ''message'' ''Debug'',
        CallAddException ''oops'' ''errorCode'']"
  let ?em = "\<lparr>Exceptions = \<lparr>Exceptions.Items = [\<lparr>Exception.Text = ''oops'', Code = ''errorCode''\<rparr>]\<rparr>\<rparr>"
  have e: "ExceptionMessage ?tr = Some ?em"
    by (simp add: applyCalls_def helper_defs Let_def)
  have r: "RequestMessage ?tr = None"
    by (simp add: applyCalls_def helper_defs Let_def)
  have p: "ResponseMessage ?tr \<noteq> None"
    by (simp add: applyCalls_def helper_defs Let_def)
  have "fst (ThrowExceptions ?tr)
          = ''<MaltegoMessage>'' @ render (marshalExceptionMessage ?em) @ ''</MaltegoMessage>''"
    using ThrowExceptions_clears_response [of ?tr] e r by blast
  then show ?thesis using e r p
    by (simp add: marshal_defs escape_defs)
qed


section \<open>The entity rendered after \<open>AddEntity\<close>\<close>














section \<open>Escaping a line feed\<close>







section \<open>Empty strings and nil payloads in the encoding\<close>

text \<open>
  Claim C5. An entity whose \<open>Value\<close> (or \<open>Weight\<close>) is the empty string
  still marshals with a \<open>Value\<close> (or \<open>Weight\<close>) child, written as the
  empty element \<open><Value></Value>\<close>; a payload pointer of the envelope that is nil
  yields no child of \<open>MaltegoMessage\<close>, and an envelope with no payload marshals
  to the bare root element.
\<close>

theorem empty_strings_rendered_nil_payloads_not:
  "(Entity.Value e = [] \<longrightarrow>
      Element ''Value'' [] [CharData []] \<in> set (children (marshalEntity e))
      \<and> render (Element ''Value'' [] [CharData []]) = ''<Value></Value>''
      \<and> sublist ''<Value></Value>'' (render (marshalEntity e)))
   \<and> (Weight e = [] \<longrightarrow>
      Element ''Weight'' [] [CharData []] \<in> set (children (marshalEntity e))
      \<and> render (Element ''Weight'' [] [CharData []]) = ''<Weight></Weight>''
      \<and> sublist ''<Weight></Weight>'' (render (marshalEntity e)))
   \<and> (ResponseMessage tr = None \<longrightarrow>
        \<not> hasChild ''MaltegoTransformResponseMessage'' (marshalTransform tr))
   \<and> (ExceptionMessage tr = None \<longrightarrow>
        \<not> hasChild ''MaltegoTransformExceptionMessage'' (marshalTransform tr))
   \<and> (RequestMessage tr = None \<longrightarrow>
        \<not> hasChild ''MaltegoTransformRequestMessage'' (marshalTransform tr))
   \<and> (ResponseMessage tr = None \<and> ExceptionMessage tr = None \<and> RequestMessage tr = None \<longrightarrow>
        ReturnOutput tr = ''<MaltegoMessage></MaltegoMessage>'')"
proof -
  have v: "Element ''Value'' [] [CharData (Entity.Value e)] \<in> set (children (marshalEntity e))"
    and w: "Element ''Weight'' [] [CharData (Weight e)] \<in> set (children (marshalEntity e))"
    by (simp_all add: marshalEntity_def stringElement_def)
  have r: "render (marshalEntity e)
             = render (Element ''Entity'' [(''Type'', Entity.Type e)] (children (marshalEntity e)))"
    by (simp add: marshalEntity_def)
  have sv: "sublist (render (Element ''Value'' [] [CharData (Entity.Value e)])) (render (marshalEntity e))"
    unfolding r by (rule sublist_render_child [OF v])
  have sw: "sublist (render (Element ''Weight'' [] [CharData (Weight e)])) (render (marshalEntity e))"
    unfolding r by (rule sublist_render_child [OF w])
  have 1: "Entity.Value e = [] \<longrightarrow>
      Element ''Value'' [] [CharData []] \<in> set (children (marshalEntity e))
      \<and> render (Element ''Value'' [] [CharData []]) = ''<Value></Value>''
      \<and> sublist ''<Value></Value>'' (render (marshalEntity e))"
    using v sv by auto
  have 2: "Weight e = [] \<longrightarrow>
      Element ''Weight'' [] [CharData []] \<in> set (children (marshalEntity e))
      \<and> render (Element ''Weight'' [] [CharData []]) = ''<Weight></Weight>''
      \<and> sublist ''<Weight></Weight>'' (render (marshalEntity e))"
    using w sw by auto
  have 3: "ResponseMessage tr = None \<longrightarrow>
        \<not> hasChild ''MaltegoTransformResponseMessage'' (marshalTransform tr)"
    and 4: "ExceptionMessage tr = None \<longrightarrow>
        \<not> hasChild ''MaltegoTransformExceptionMessage'' (marshalTransform tr)"
    and 5: "RequestMessage tr = None \<longrightarrow>
        \<not> hasChild ''MaltegoTransformRequestMessage'' (marshalTransform tr)"
    by (simp_all add: hasChild_def childNames_marshalTransform)
  have 6: "ResponseMessage tr = None \<and> ExceptionMessage tr = None \<and> RequestMessage tr = None \<longrightarrow>
        ReturnOutput tr = ''<MaltegoMessage></MaltegoMessage>''"
    by (simp add: ReturnOutput_def xml_Marshal_def marshalTransform_def payloadElements_def)
  show ?thesis using 1 2 3 4 5 6 by blast
qed

theorem empty_strings_rendered_nil_payloads_not_witness:
  \<open>render (marshalEntity (NewEntity ''type'' [] [])) = ''<Entity Type="type"><Value></Value><Weight></Weight></Entity>''
   \<and> sublist ''<Value></Value>'' (render (marshalEntity (NewEntity ''type'' [] [])))
   \<and> sublist ''<Weight></Weight>'' (render (marshalEntity (NewEntity ''type'' [] [])))
   \<and> ReturnOutput zeroTransform = ''<MaltegoMessage></MaltegoMessage>''
   \<and> \<not> hasChild ''MaltegoTransformResponseMessage'' (marshalTransform zeroTransform)
   \<and> \<not> hasChild ''MaltegoTransformExceptionMessage'' (marshalTransform zeroTransform)
   \<and> \<not> hasChild ''MaltegoTransformRequestMessage'' (marshalTransform zeroTransform)\<close>
proof -
  have "render (marshalEntity (NewEntity ''type'' [] [])) = ''<Entity Type=\"type\"><Value></Value><Weight></Weight></Entity>''"
    by (simp add: NewEntity_def marshal_defs escape_defs)
  moreover have "Entity.Value (NewEntity ''type'' [] []) = []" "Weight (NewEntity ''type'' [] []) = []"
    by (simp_all add: NewEntity_def)
  moreover have "ResponseMessage zeroTransform = None" "ExceptionMessage zeroTransform = None"
    "RequestMessage zeroTransform = None"
    by (simp_all add: zeroTransform_def)
  ultimately show ?thesis
    using empty_strings_rendered_nil_payloads_not [of "NewEntity ''type'' [] []" zeroTransform]
    by blast
qed


section \<open>Fields of an entity: \<open>AddProperty\<close> and \<open>GetFieldByName\<close>\<close>

text \<open>
  Claim C1 does not hold of the code: \<open>GetFieldByName\<close> reads
  \<open>tre.Fields.Items\<close> without the nil check its siblings \<open>AddProperty\<close>,
  \<open>AddProp\<close> and \<open>AddDisplayInformation\<close> make, so on an entity fresh from
  \<open>NewEntity\<close> or \<open>AddEntity\<close> (no field ever added) it panics instead of
  returning the empty string.
\<close>

theorem GetFieldByName_unset_Fields_panics:
  "GetFieldByName (NewEntity ''maltego.DNSName'' ''example.com'' ''100'') ''fqdn''
     = Inl NilPointerDereference
   \<and> GetFieldByName (fst (AddEntity zeroTransform ''maltego.DNSName'' ''example.com'')) ''fqdn''
     = Inl NilPointerDereference"
  by (simp add: GetFieldByName_def NewEntity_def AddEntity_def Let_def)


lemma AddProperty_fieldItems:
  "fieldItems (AddProperty tre n d m v) = fieldItems tre @ [newField (n, d, m, v)]"
  by (simp add: fieldItems_def AddProperty_def Let_def split: option.splits)

lemma AddProperty_Fields:
  "Entity.Fields (AddProperty tre n d m v) \<noteq> None"
  by (simp add: AddProperty_def Let_def)

lemma AddProperties_fieldItems:
  "fieldItems (AddProperties tre calls) = fieldItems tre @ map newField calls"
proof (induction calls arbitrary: tre)
  case Nil
  then show ?case by simp
next
  case (Cons c calls)
  obtain n d m v where c: "c = (n, d, m, v)" by (cases c) auto
  show ?case using Cons.IH [of "AddProperty tre n d m v"]
    by (simp add: c AddProperty_fieldItems)
qed

lemma AddProperties_Fields:
  "calls \<noteq> [] \<Longrightarrow> Entity.Fields (AddProperties tre calls) \<noteq> None"
proof (induction calls arbitrary: tre)
  case Nil
  then show ?case by simp
next
  case (Cons c calls)
  obtain n d m v where c: "c = (n, d, m, v)" by (cases c) auto
  show ?case
  proof (cases "calls = []")
    case True
    then show ?thesis by (simp add: c AddProperty_Fields)
  next
    case False
    then show ?thesis using Cons.IH [of "AddProperty tre n d m v"] by (simp add: c)
  qed
qed

lemma GetFieldByName_scan:
  "Entity.Fields tre \<noteq> None \<Longrightarrow> GetFieldByName tre name = Inr (scanFields (fieldItems tre) name)"
  by (auto simp: GetFieldByName_def fieldItems_def)

lemma scanFields_append_miss:
  "\<forall>f \<in> set fs. Field.Name f \<noteq> name \<Longrightarrow> scanFields (fs @ gs) name = scanFields gs name"
  by (induction fs) auto

text \<open>
  Claim C8. Every \<open>AddProperty\<close> call appends one new field, whatever names the
  entity already has: after a sequence of calls the fields are the old ones followed by one
  field per call, in order. \<open>GetFieldByName\<close> then returns the text of the first
  field of that list with the name asked for; when the name was not on the entity before,
  this is the escaped value of the first call that used the name, however many later calls
  repeat it.
\<close>

theorem AddProperty_appends_first_match_wins:
  "fieldItems (AddProperties tre calls) = fieldItems tre @ map newField calls
   \<and> (calls \<noteq> [] \<longrightarrow>
        GetFieldByName (AddProperties tre calls) name
          = Inr (scanFields (fieldItems tre @ map newField calls) name))
   \<and> ((\<forall>f \<in> set (fieldItems tre). Field.Name f \<noteq> name) \<and> (\<forall>c \<in> set pre. fst c \<noteq> name) \<longrightarrow>
        GetFieldByName (AddProperties tre (pre @ (name, d, m, v) # post)) name
          = Inr (EscapeText v))"
proof (intro conjI impI)
  show "fieldItems (AddProperties tre calls) = fieldItems tre @ map newField calls"
    by (rule AddProperties_fieldItems)
next
  assume "calls \<noteq> []"
  then show "GetFieldByName (AddProperties tre calls) name
          = Inr (scanFields (fieldItems tre @ map newField calls) name)"
    using GetFieldByName_scan [OF AddProperties_Fields] AddProperties_fieldItems by simp
next
  assume h: "(\<forall>f \<in> set (fieldItems tre). Field.Name f \<noteq> name) \<and> (\<forall>c \<in> set pre. fst c \<noteq> name)"
  let ?calls = "pre @ (name, d, m, v) # post"
  have "\<forall>f \<in> set (map newField pre). Field.Name f \<noteq> name"
    using h by auto
  then have miss: "\<forall>f \<in> set (fieldItems tre @ map newField pre). Field.Name f \<noteq> name"
    using h by auto
  have "GetFieldByName (AddProperties tre ?calls) name
          = Inr (scanFields (fieldItems tre @ map newField ?calls) name)"
    using GetFieldByName_scan [OF AddProperties_Fields, of ?calls tre name]
      AddProperties_fieldItems [of tre ?calls] by simp
  also have "fieldItems tre @ map newField ?calls
          = (fieldItems tre @ map newField pre) @ newField (name, d, m, v) # map newField post"
    by simp
  also have "scanFields \<dots> name = EscapeText v"
    using scanFields_append_miss [OF miss] by simp
  finally show "GetFieldByName (AddProperties tre ?calls) name = Inr (EscapeText v)" .
qed

theorem AddProperty_appends_first_match_wins_witness:
  "length (fieldItems (AddProperties (NewEntity ''maltego.DNSName'' ''example.com'' ''100'')
       [(''hostname'', ''Hostname'', ''strict'', ''first''),
        (''hostname'', ''Hostname'', ''strict'', ''second'')])) = 2
   \<and> GetFieldByName (AddProperties (NewEntity ''maltego.DNSName'' ''example.com'' ''100'')
       [(''hostname'', ''Hostname'', ''strict'', ''first''),
        (''hostname'', ''Hostname'', ''strict'', ''second'')]) ''hostname'' = Inr ''first''"
  using AddProperty_appends_first_match_wins
          [of "NewEntity ''maltego.DNSName'' ''example.com'' ''100''"
              "[(''hostname'', ''Hostname'', ''strict'', ''first''),
                (''hostname'', ''Hostname'', ''strict'', ''second'')]"
              "''hostname''" "[]" "''Hostname''" "''strict''" "''first''"
              "[(''hostname'', ''Hostname'', ''strict'', ''second'')]"]
  by (simp add: fieldItems_def NewEntity_def escape_defs)


section \<open>Decoding a request\<close>

lemma readDocument_request:
  \<open>readDocument ''<MaltegoMessage><MaltegoTransformRequestMessage><Entities><Entity Type="DNSName"><Value>alpine.paterva.com</Value><Weight>0</Weight></Entity></Entities><Limits SoftLimit="256" HardLimit="256"/></MaltegoTransformRequestMessage></MaltegoMessage>''
   = Inr (Element ''MaltegoMessage'' []
       [Element ''MaltegoTransformRequestMessage'' []
         [Element ''Entities'' []
           [Element ''Entity'' [(''Type'', ''DNSName'')]
             [Element ''Value'' [] [CharData ''alpine.paterva.com''],
              Element ''Weight'' [] [CharData ''0'']]],
          Element ''Limits'' [(''SoftLimit'', ''256''), (''HardLimit'', ''256'')] []]])\<close>
  by (simp add: reader_defs)


text \<open>
  The decoding test of the package, \<open>TestParseMaltegoToTDS\<close>: every value the test
  asserts is the value the model decodes.
\<close>

lemma TestParseMaltegoToTDS:
  \<open>xml_Unmarshal maltegoToTDS zeroTransform
   = Inr \<lparr>ResponseMessage = None, ExceptionMessage = None,
          RequestMessage = Some
            \<lparr>RequestMessage.Entities = \<lparr>Entities.Items =
               [\<lparr>Entity.Type = ''DNSName'',
                 Genealogy = Some \<lparr>Genealogy.Type =
                    \<lparr>GenealogyType.Name = ''maltego.DNSName'', OldName = ''DNSName''\<rparr>\<rparr>,
                 Entity.Value = ''alpine.paterva.com'', Weight = ''0'', Info = None, IconURL = [],
                 Entity.Fields = Some \<lparr>AdditionalFields.Items =
                    [\<lparr>Field.Text = ''alpine.paterva.com'', MatchingRule = [],
                      Field.Name = ''fqdn'', DisplayName = ''DNS Name''\<rparr>]\<rparr>\<rparr>]\<rparr>,
             Limits = \<lparr>HardLimit = ''256'', SoftLimit = ''256''\<rparr>,
             TransformFields = \<lparr>TransformFields.Fields = []\<rparr>\<rparr>\<rparr>\<close>
  by (simp add: maltegoToTDS_def reader_defs unmarshal_defs zeroTransform_def NewEntity_def)

text \<open>
  Claim C7. Decoding the request document of the scenario into an empty envelope succeeds
  and sets the request payload only: the response and exception payloads stay nil, the
  request holds exactly one entity with type \<open>DNSName\<close>, value
  \<open>alpine.paterva.com\<close> and weight \<open>0\<close> (no genealogy, display information,
  icon or fields), and the soft and hard limits are both \<open>256\<close>.
\<close>

theorem Unmarshal_request_document:
  \<open>xml_Unmarshal ''<MaltegoMessage><MaltegoTransformRequestMessage><Entities><Entity Type="DNSName"><Value>alpine.paterva.com</Value><Weight>0</Weight></Entity></Entities><Limits SoftLimit="256" HardLimit="256"/></MaltegoTransformRequestMessage></MaltegoMessage>'' zeroTransform
   = Inr \<lparr>ResponseMessage = None, ExceptionMessage = None,
          RequestMessage = Some
            \<lparr>RequestMessage.Entities = \<lparr>Entities.Items =
               [\<lparr>Entity.Type = ''DNSName'', Genealogy = None,
                 Entity.Value = ''alpine.paterva.com'', Weight = ''0'', Info = None, IconURL = [],
                 Entity.Fields = None\<rparr>]\<rparr>,
             Limits = \<lparr>HardLimit = ''256'', SoftLimit = ''256''\<rparr>,
             TransformFields = \<lparr>TransformFields.Fields = []\<rparr>\<rparr>\<rparr>\<close>
  by (simp add: xml_Unmarshal_def readDocument_request)
     (simp add: unmarshal_defs zeroTransform_def NewEntity_def)


section \<open>The local argument parser returns or dies\<close>

lemma Split_nonempty: "Split s sep \<noteq> []"
  by (induction s sep rule: Split.induct) (auto split: list.splits)

lemma parseVar_returns: "\<exists>vals'. parseVar vals x = Inr vals'"
  using Split_nonempty [of x "''=''"]
  by (auto simp: parseVar_def Let_def split: list.splits)

lemma parseVars_returns: "\<exists>vals'. parseVars vals vars = Inr vals'"
proof (induction vars arbitrary: vals)
  case Nil
  then show ?case by simp
next
  case (Cons x vars)
  obtain v where "parseVar vals x = Inr v" using parseVar_returns by blast
  then show ?case using Cons.IH [of v] by simp
qed

lemma parseArgs_returns: "\<exists>vals'. parseArgs vals args = Inr vals'"
proof (induction args arbitrary: vals)
  case Nil
  then show ?case by simp
next
  case (Cons arg args)
  show ?case
  proof (cases "length (Replace [([CHR 0x0A], '' '')] arg) > 0")
    case True
    obtain v where v: "parseVars vals (Split (Replace [([CHR 0x0A], '' '')] arg) ''#'') = Inr v"
      using parseVars_returns by blast
    show ?thesis using True v Cons.IH [of v] by (simp add: Let_def)
  next
    case False
    then show ?thesis using Cons.IH [of "vals"] by (simp add: Let_def)
  qed
qed

text \<open>
  Claim C9. With fewer than two arguments \<open>ParseLocalArguments\<close> ends the process
  through \<open>log.Fatal\<close> and returns nothing; with two or more it returns, no step of
  its loops panics, and the primary value of the result is the first argument.
\<close>

theorem ParseLocalArguments_fatal_or_returns:
  "(length args < 2 \<longrightarrow> ParseLocalArguments args = Inl Fatal)
   \<and> (2 \<le> length args \<longrightarrow>
        (\<exists>lt. ParseLocalArguments args = Inr lt \<and> LocalTransform.Value lt = args ! 0))"
proof (intro conjI impI)
  assume "length args < 2"
  then show "ParseLocalArguments args = Inl Fatal" by (simp add: ParseLocalArguments_def)
next
  assume len: "2 \<le> length args"
  obtain v where "parseArgs Map.empty (drop 1 args) = Inr v" using parseArgs_returns by blast
  then show "\<exists>lt. ParseLocalArguments args = Inr lt \<and> LocalTransform.Value lt = args ! 0"
    using len by (simp add: ParseLocalArguments_def)
qed

theorem ParseLocalArguments_fatal_or_returns_witness:
  "length [''only''] < 2 \<and> ParseLocalArguments [''only''] = Inl Fatal
   \<and> 2 \<le> length [''example.com'', ''fqdn=example.com#status=ok'']
   \<and> (\<exists>lt. ParseLocalArguments [''example.com'', ''fqdn=example.com#status=ok''] = Inr lt
        \<and> LocalTransform.Value lt = ''example.com'')"
  using ParseLocalArguments_fatal_or_returns [of "[''only'']"]
    ParseLocalArguments_fatal_or_returns [of "[''example.com'', ''fqdn=example.com#status=ok'']"]
  by simp


end
